theory Spec2Isabelle
  imports Main "HOL-Library.Word"
begin

section \<open>ORUtils::Image: a pixel buffer on the CPU host and, optionally, on the GPU\<close>

text \<open>
  The development embeds the class template \<open>ORUtils::Image<T>\<close> of
  \<^verbatim>\<open>ORUtils/Image.h\<close>. An image object is a record of its six fields; the storage it
  points to lives in an explicit memory that every member function threads through.
  Two parameters stand for what the C++ fixes at compile time:
  \<^item> \<open>sz\<close> is \<open>sizeof(T)\<close>, the size of one pixel in bytes;
  \<^item> \<open>cuda\<close> is true when \<^verbatim>\<open>COMPILE_WITHOUT_CUDA\<close> is not defined, so that the code
    under \<^verbatim>\<open>#ifndef COMPILE_WITHOUT_CUDA\<close> is compiled in.

  Every member function returns either an error (an exception, an abort, undefined
  behaviour) or the object and the memory as it leaves them. One thread runs the calls
  one after the other, and each library call has completed when it returns.
\<close>

subsection \<open>Memory\<close>

type_synonym byte = "8 word"
type_synonym ptr = nat

text \<open>
  A block of storage remembers which allocator produced it: \<open>new T[n]\<close> (pageable host
  memory), \<open>cudaMallocHost\<close> (pinned host memory) or \<open>cudaMalloc\<close> (device memory).
\<close>

datatype space = Pageable | Pinned | Device

text \<open>
  The memory maps the pointers of live blocks to their bytes. \<open>next_ptr\<close> is the pointer
  the next allocation returns, \<open>garbage\<close> the bytes found in storage that nobody has
  written yet, and \<open>host_avail\<close> and \<open>device_avail\<close> the bytes each domain can still
  hand out: a request beyond them fails.
\<close>

record memory =
  blocks :: "ptr \<rightharpoonup> space \<times> byte list"
  next_ptr :: ptr
  garbage :: "ptr \<Rightarrow> nat \<Rightarrow> byte"
  host_avail :: nat
  device_avail :: nat

definition avail :: "space \<Rightarrow> memory \<Rightarrow> nat" where
  "avail sp m = (if sp = Device then device_avail m else host_avail m)"

definition set_avail :: "space \<Rightarrow> nat \<Rightarrow> memory \<Rightarrow> memory" where
  "set_avail sp k m = (if sp = Device then m\<lparr>device_avail := k\<rparr> else m\<lparr>host_avail := k\<rparr>)"

definition on_host :: "space \<Rightarrow> bool" where
  "on_host sp \<longleftrightarrow> sp \<noteq> Device"

definition on_device :: "space \<Rightarrow> bool" where
  "on_device sp \<longleftrightarrow> sp = Device"

text \<open>Allocation of \<open>n\<close> bytes: a fresh block with unspecified content, or failure.\<close>

definition alloc :: "space \<Rightarrow> nat \<Rightarrow> memory \<Rightarrow> (ptr \<times> memory) option" where
  "alloc sp n m =
     (if n \<le> avail sp m
      then Some (next_ptr m,
                 set_avail sp (avail sp m - n)
                   (m\<lparr>blocks := (blocks m)(next_ptr m \<mapsto> (sp, map (garbage m (next_ptr m)) [0..<n])),
                      next_ptr := Suc (next_ptr m)\<rparr>))
      else None)"

text \<open>
  Deallocation succeeds only on a live block of the matching allocator; anything else
  (a dangling or foreign pointer, a second free) is a failure.
\<close>

definition release :: "space \<Rightarrow> ptr \<Rightarrow> memory \<Rightarrow> memory option" where
  "release sp p m =
     (case blocks m p of
        None \<Rightarrow> None
      | Some (sp', bs) \<Rightarrow>
          if sp' = sp
          then Some (set_avail sp (avail sp m + length bs) (m\<lparr>blocks := (blocks m)(p := None)\<rparr>))
          else None)"

text \<open>Writing \<open>n\<close> copies of a byte to the start of a block.\<close>

definition fill :: "(space \<Rightarrow> bool) \<Rightarrow> ptr \<Rightarrow> byte \<Rightarrow> nat \<Rightarrow> memory \<Rightarrow> memory option" where
  "fill ok p v n m =
     (case blocks m p of
        None \<Rightarrow> None
      | Some (sp, bs) \<Rightarrow>
          if ok sp \<and> n \<le> length bs
          then Some (m\<lparr>blocks := (blocks m)(p \<mapsto> (sp, replicate n v @ drop n bs))\<rparr>)
          else None)"

text \<open>
  Copying the first \<open>n\<close> bytes of the block \<open>src\<close> to the start of the block \<open>dst\<close>.
  Both blocks must be live, in the expected domain and at least \<open>n\<close> bytes long, and
  the two ranges must not overlap.
\<close>

definition copy :: "(space \<Rightarrow> bool) \<Rightarrow> ptr \<Rightarrow> (space \<Rightarrow> bool) \<Rightarrow> ptr \<Rightarrow> nat \<Rightarrow> memory \<Rightarrow> memory option" where
  "copy dok dst sok src n m =
     (case blocks m dst of
        None \<Rightarrow> None
      | Some (dsp, dbs) \<Rightarrow>
          (case blocks m src of
             None \<Rightarrow> None
           | Some (ssp, sbs) \<Rightarrow>
               if dok dsp \<and> sok ssp \<and> n \<le> length dbs \<and> n \<le> length sbs \<and> (dst \<noteq> src \<or> n = 0)
               then Some (m\<lparr>blocks := (blocks m)(dst \<mapsto> (dsp, take n sbs @ drop n dbs))\<rparr>)
               else None))"

text \<open>
  What a caller does with the pointer \<open>GetData(false)\<close>: reading the bytes of a block and
  overwriting all of them from the host.
\<close>

definition peek :: "ptr \<Rightarrow> memory \<Rightarrow> byte list option" where
  "peek p m = map_option snd (blocks m p)"

definition poke :: "ptr \<Rightarrow> byte list \<Rightarrow> memory \<Rightarrow> memory option" where
  "poke p bs m =
     (case blocks m p of
        None \<Rightarrow> None
      | Some (sp, old) \<Rightarrow>
          if on_host sp \<and> length bs = length old
          then Some (m\<lparr>blocks := (blocks m)(p \<mapsto> (sp, bs))\<rparr>)
          else None)"

subsection \<open>Errors and the library calls of the source\<close>

text \<open>
  \<open>BadAlloc\<close> is the exception of a failed \<open>new\<close>, \<open>CudaFailure\<close> the abort of
  \<open>ORcudaSafeCall\<close>, \<open>UndefinedBehaviour\<close> a host access outside a live block.
\<close>

datatype error = BadAlloc | CudaFailure | UndefinedBehaviour

definition then_do :: "error + 'a \<Rightarrow> ('a \<Rightarrow> error + 'b) \<Rightarrow> error + 'b" where
  "then_do r f = (case r of Inl e \<Rightarrow> Inl e | Inr v \<Rightarrow> f v)"

text \<open>
  Modelled from the spec: the macro \<open>ORcudaSafeCall\<close> of \<^verbatim>\<open>CUDADefines.h\<close>, which is not
  part of the sources at hand. A failure of the accelerator call it wraps is fatal.
\<close>

definition ORcudaSafeCall :: "'a option \<Rightarrow> error + 'a" where
  "ORcudaSafeCall r = (case r of None \<Rightarrow> Inl CudaFailure | Some v \<Rightarrow> Inr v)"

text \<open>
  The byte count \<open>dataSize * sizeof(T)\<close>. \<open>dataSize\<close> is a signed 32-bit \<open>int\<close> and the
  product is a \<open>size_t\<close>: a negative \<open>dataSize\<close> converts to a size beyond any block and
  any amount of available memory, which is \<open>None\<close> here. The product of a non-negative
  count with \<open>sizeof(T)\<close> is taken not to wrap.
\<close>

definition byte_count :: "nat \<Rightarrow> 32 word \<Rightarrow> nat option" where
  "byte_count sz n = (if 0 \<le> sint n then Some (nat (sint n) * sz) else None)"

definition new_array :: "nat option \<Rightarrow> memory \<Rightarrow> error + ptr \<times> memory" where
  "new_array c m =
     (case Option.bind c (\<lambda>n. alloc Pageable n m) of None \<Rightarrow> Inl BadAlloc | Some r \<Rightarrow> Inr r)"

definition delete_array :: "ptr \<Rightarrow> memory \<Rightarrow> error + memory" where
  "delete_array p m =
     (case release Pageable p m of None \<Rightarrow> Inl UndefinedBehaviour | Some m' \<Rightarrow> Inr m')"

definition cudaMallocHost :: "nat option \<Rightarrow> memory \<Rightarrow> (ptr \<times> memory) option" where
  "cudaMallocHost c m = Option.bind c (\<lambda>n. alloc Pinned n m)"

definition cudaMalloc :: "nat option \<Rightarrow> memory \<Rightarrow> (ptr \<times> memory) option" where
  "cudaMalloc c m = Option.bind c (\<lambda>n. alloc Device n m)"

definition cudaFreeHost :: "ptr \<Rightarrow> memory \<Rightarrow> memory option" where
  "cudaFreeHost p m = release Pinned p m"

definition cudaFree :: "ptr \<Rightarrow> memory \<Rightarrow> memory option" where
  "cudaFree p m = release Device p m"

definition memset :: "ptr \<Rightarrow> byte \<Rightarrow> nat option \<Rightarrow> memory \<Rightarrow> error + memory" where
  "memset p v c m =
     (case Option.bind c (\<lambda>n. fill on_host p v n m) of
        None \<Rightarrow> Inl UndefinedBehaviour
      | Some m' \<Rightarrow> Inr m')"

definition cudaMemset :: "ptr \<Rightarrow> byte \<Rightarrow> nat option \<Rightarrow> memory \<Rightarrow> memory option" where
  "cudaMemset p v c m = Option.bind c (\<lambda>n. fill on_device p v n m)"

definition memcpy :: "ptr \<Rightarrow> ptr \<Rightarrow> nat option \<Rightarrow> memory \<Rightarrow> error + memory" where
  "memcpy dst src c m =
     (case Option.bind c (\<lambda>n. copy on_host dst on_host src n m) of
        None \<Rightarrow> Inl UndefinedBehaviour
      | Some m' \<Rightarrow> Inr m')"

datatype cudaMemcpyKind = cudaMemcpyHostToDevice | cudaMemcpyDeviceToHost | cudaMemcpyDeviceToDevice

fun dst_domain :: "cudaMemcpyKind \<Rightarrow> space \<Rightarrow> bool" where
  "dst_domain cudaMemcpyHostToDevice = on_device"
| "dst_domain cudaMemcpyDeviceToHost = on_host"
| "dst_domain cudaMemcpyDeviceToDevice = on_device"

fun src_domain :: "cudaMemcpyKind \<Rightarrow> space \<Rightarrow> bool" where
  "src_domain cudaMemcpyHostToDevice = on_host"
| "src_domain cudaMemcpyDeviceToHost = on_device"
| "src_domain cudaMemcpyDeviceToDevice = on_device"

definition cudaMemcpy :: "ptr \<Rightarrow> ptr \<Rightarrow> nat option \<Rightarrow> cudaMemcpyKind \<Rightarrow> memory \<Rightarrow> memory option" where
  "cudaMemcpy dst src c k m = Option.bind c (\<lambda>n. copy (dst_domain k) dst (src_domain k) src n m)"

subsection \<open>The image object\<close>

text \<open>
  Modelled from the spec: \<open>Vector2i\<close> of \<^verbatim>\<open>Vector.h\<close>, which is not part of the sources at
  hand: a pair of \<open>int\<close> components \<open>x\<close> (the first) and \<open>y\<close> (the second), compared
  component by component. The multiplication of two \<open>int\<close> values wraps around at 32 bits.
\<close>

type_synonym Vector2i = "32 word \<times> 32 word"

text \<open>
  The fields of \<open>Image<T>\<close>. The flag \<open>isAllocated\<close> is an \<open>int\<close> in the source that only
  ever receives \<open>false\<close> and \<open>true\<close>.
\<close>

record Image =
  allocateGPU :: bool
  isAllocated :: bool
  data_host :: ptr
  data_device :: ptr
  noDims :: Vector2i
  dataSize :: "32 word"

definition GetData :: "Image \<Rightarrow> bool \<Rightarrow> ptr" where
  "GetData this useGPU = (if useGPU then data_device this else data_host this)"

text \<open>
  \<open>Image(bool allocateGPU)\<close>. A constructor starts from the object's storage as it finds
  it, \<open>raw\<close>, and assigns some of the fields; the others keep their indeterminate values.
\<close>

definition Image_ctor :: "Image \<Rightarrow> bool \<Rightarrow> Image" where
  "Image_ctor raw gpu = raw\<lparr>isAllocated := False, noDims := (0, 0), allocateGPU := gpu\<rparr>"

definition Allocate :: "bool \<Rightarrow> nat \<Rightarrow> Vector2i \<Rightarrow> Image \<Rightarrow> memory \<Rightarrow> error + Image \<times> memory" where
  "Allocate cuda sz dims this m =
     then_do
       (if \<not> isAllocated this then
          (let this1 = this\<lparr>noDims := dims, dataSize := fst dims * snd dims\<rparr> in
           if allocateGPU this1 then
             (if cuda then
                then_do (ORcudaSafeCall (cudaMallocHost (byte_count sz (dataSize this1)) m)) (\<lambda>(h, m1).
                then_do (ORcudaSafeCall (cudaMalloc (byte_count sz (dataSize this1)) m1)) (\<lambda>(d, m2).
                Inr (this1\<lparr>data_host := h, data_device := d\<rparr>, m2)))
              else Inr (this1, m))
           else
             then_do (new_array (byte_count sz (dataSize this1)) m) (\<lambda>(h, m1).
             Inr (this1\<lparr>data_host := h\<rparr>, m1)))
        else Inr (this, m))
       (\<lambda>(this2, m'). Inr (this2\<lparr>isAllocated := True\<rparr>, m'))"

definition Clear :: "bool \<Rightarrow> nat \<Rightarrow> byte \<Rightarrow> Image \<Rightarrow> memory \<Rightarrow> error + Image \<times> memory" where
  "Clear cuda sz defaultValue this m =
     then_do (memset (data_host this) defaultValue (byte_count sz (dataSize this)) m) (\<lambda>m1.
     then_do
       (if cuda \<and> allocateGPU this
        then ORcudaSafeCall (cudaMemset (data_device this) defaultValue (byte_count sz (dataSize this)) m1)
        else Inr m1) (\<lambda>m2.
     Inr (this, m2)))"

text \<open>\<open>Image(Vector2i noDims, bool allocateGPU)\<close>; \<open>Clear()\<close> has the default argument 0.\<close>

definition Image_ctor_dims :: "bool \<Rightarrow> nat \<Rightarrow> Image \<Rightarrow> Vector2i \<Rightarrow> bool \<Rightarrow> memory \<Rightarrow> error + Image \<times> memory" where
  "Image_ctor_dims cuda sz raw dims gpu m =
     then_do (Allocate cuda sz dims (raw\<lparr>isAllocated := False, allocateGPU := gpu\<rparr>) m) (\<lambda>(this, m1).
     Clear cuda sz 0 this m1)"

definition Free :: "bool \<Rightarrow> Image \<Rightarrow> memory \<Rightarrow> error + Image \<times> memory" where
  "Free cuda this m =
     then_do
       (if isAllocated this then
          (if allocateGPU this then
             (if cuda then
                then_do (ORcudaSafeCall (cudaFree (data_device this) m)) (\<lambda>m1.
                ORcudaSafeCall (cudaFreeHost (data_host this) m1))
              else Inr m)
           else delete_array (data_host this) m)
        else Inr m)
       (\<lambda>m'. Inr (this\<lparr>isAllocated := False\<rparr>, m'))"

definition ChangeDims :: "bool \<Rightarrow> nat \<Rightarrow> Vector2i \<Rightarrow> Image \<Rightarrow> memory \<Rightarrow> error + Image \<times> memory" where
  "ChangeDims cuda sz newDims this m =
     (if newDims \<noteq> noDims this \<or> \<not> isAllocated this then
        then_do (Free cuda this m) (\<lambda>(this1, m1).
        Allocate cuda sz newDims this1 m1)
      else Inr (this, m))"

definition UpdateDeviceFromHost :: "bool \<Rightarrow> nat \<Rightarrow> Image \<Rightarrow> memory \<Rightarrow> error + Image \<times> memory" where
  "UpdateDeviceFromHost cuda sz this m =
     then_do
       (if cuda \<and> allocateGPU this
        then ORcudaSafeCall (cudaMemcpy (data_device this) (data_host this)
               (byte_count sz (dataSize this)) cudaMemcpyHostToDevice m)
        else Inr m)
       (\<lambda>m'. Inr (this, m'))"

definition UpdateHostFromDevice :: "bool \<Rightarrow> nat \<Rightarrow> Image \<Rightarrow> memory \<Rightarrow> error + Image \<times> memory" where
  "UpdateHostFromDevice cuda sz this m =
     then_do
       (if cuda \<and> allocateGPU this
        then ORcudaSafeCall (cudaMemcpy (data_host this) (data_device this)
               (byte_count sz (dataSize this)) cudaMemcpyDeviceToHost m)
        else Inr m)
       (\<lambda>m'. Inr (this, m'))"

text \<open>
  \<open>SetFrom\<close> reads the fields of \<open>source\<close> and writes through the pointers of \<open>this\<close>; both
  objects live in the same memory. The byte count is that of \<open>source\<close>.
\<close>

definition SetFrom :: "bool \<Rightarrow> nat \<Rightarrow> Image \<Rightarrow> bool \<Rightarrow> bool \<Rightarrow> Image \<Rightarrow> memory \<Rightarrow> error + Image \<times> memory" where
  "SetFrom cuda sz source copyHost copyDevice this m =
     then_do
       (if copyHost
        then memcpy (data_host this) (data_host source) (byte_count sz (dataSize source)) m
        else Inr m) (\<lambda>m1.
     then_do
       (if cuda \<and> copyDevice
        then ORcudaSafeCall (cudaMemcpy (data_device this) (data_device source)
               (byte_count sz (dataSize source)) cudaMemcpyDeviceToDevice m1)
        else Inr m1) (\<lambda>m2.
     Inr (this, m2)))"

subsection \<open>Allocated images\<close>

text \<open>
  \<open>has_block m p sp n\<close>: the pointer \<open>p\<close> is a live block of \<open>n\<close> bytes from allocator \<open>sp\<close>.
\<close>

definition has_block :: "memory \<Rightarrow> ptr \<Rightarrow> space \<Rightarrow> nat \<Rightarrow> bool" where
  "has_block m p sp n =
     (case blocks m p of None \<Rightarrow> False | Some (sp', bs) \<Rightarrow> sp' = sp \<and> length bs = n)"

text \<open>
  The storage an allocated image owns, as \<open>Allocate\<close> leaves it: a CPU-only image has a
  pageable host block of \<open>dataSize * sizeof(T)\<close> bytes; an image on both CPU and GPU has
  a pinned host block and a device block of that size, which takes a build with CUDA.
\<close>

definition owns_storage :: "bool \<Rightarrow> nat \<Rightarrow> Image \<Rightarrow> memory \<Rightarrow> bool" where
  "owns_storage cuda sz this m =
     (case byte_count sz (dataSize this) of
        None \<Rightarrow> False
      | Some n \<Rightarrow>
          if allocateGPU this
          then cuda \<and> has_block m (data_host this) Pinned n \<and> has_block m (data_device this) Device n
          else has_block m (data_host this) Pageable n)"

definition allocated :: "bool \<Rightarrow> nat \<Rightarrow> Image \<Rightarrow> memory \<Rightarrow> bool" where
  "allocated cuda sz this m \<longleftrightarrow> isAllocated this \<and> owns_storage cuda sz this m"

text \<open>
  The invariant of an image object: when it is flagged allocated it owns its storage,
  except that in a build without CUDA an image on both CPU and GPU never has any.
\<close>

definition image_inv :: "bool \<Rightarrow> nat \<Rightarrow> Image \<Rightarrow> memory \<Rightarrow> bool" where
  "image_inv cuda sz this m \<longleftrightarrow>
     (isAllocated this \<longrightarrow> (allocateGPU this \<and> \<not> cuda) \<or> owns_storage cuda sz this m)"

text \<open>
  The states of one image and the memory that its constructors and member functions
  reach, as long as they return.
\<close>

inductive reachable :: "bool \<Rightarrow> nat \<Rightarrow> Image \<times> memory \<Rightarrow> bool"
  for cuda :: bool and sz :: nat where
  r_ctor: "reachable cuda sz (Image_ctor raw gpu, m)"
| r_ctor_dims: "Image_ctor_dims cuda sz raw dims gpu m = Inr s \<Longrightarrow> reachable cuda sz s"
| r_Allocate: "reachable cuda sz (this, m) \<Longrightarrow> Allocate cuda sz dims this m = Inr s
    \<Longrightarrow> reachable cuda sz s"
| r_Clear: "reachable cuda sz (this, m) \<Longrightarrow> Clear cuda sz v this m = Inr s
    \<Longrightarrow> reachable cuda sz s"
| r_ChangeDims: "reachable cuda sz (this, m) \<Longrightarrow> ChangeDims cuda sz dims this m = Inr s
    \<Longrightarrow> reachable cuda sz s"
| r_UpdateDeviceFromHost: "reachable cuda sz (this, m) \<Longrightarrow> UpdateDeviceFromHost cuda sz this m = Inr s
    \<Longrightarrow> reachable cuda sz s"
| r_UpdateHostFromDevice: "reachable cuda sz (this, m) \<Longrightarrow> UpdateHostFromDevice cuda sz this m = Inr s
    \<Longrightarrow> reachable cuda sz s"
| r_SetFrom: "reachable cuda sz (this, m)
    \<Longrightarrow> SetFrom cuda sz source copyHost copyDevice this m = Inr s
    \<Longrightarrow> reachable cuda sz s"
| r_Free: "reachable cuda sz (this, m) \<Longrightarrow> Free cuda this m = Inr s \<Longrightarrow> reachable cuda sz s"

text \<open>\<open>dataSize\<close> is the product of the two dimensions, in 32-bit arithmetic.\<close>

definition dims_consistent :: "Image \<Rightarrow> bool" where
  "dims_consistent this \<longleftrightarrow> dataSize this = fst (noDims this) * snd (noDims this)"

subsection \<open>Example states\<close>

text \<open>The storage of an object before its constructor runs, and an empty memory.\<close>

definition raw0 :: Image where
  "raw0 = \<lparr>allocateGPU = True, isAllocated = True, data_host = 0, data_device = 0,
           noDims = (9, 9), dataSize = 7\<rparr>"

definition mem0 :: memory where
  "mem0 = \<lparr>blocks = Map.empty, next_ptr = 1, garbage = (\<lambda>p i. 0xCD),
           host_avail = 2 ^ 40, device_avail = 2 ^ 40\<rparr>"

text \<open>Two 2x1 images on both CPU and GPU, with one-byte pixels, in one memory.\<close>

definition gpu_a :: Image where
  "gpu_a = \<lparr>allocateGPU = True, isAllocated = True, data_host = 1, data_device = 2,
            noDims = (2, 1), dataSize = 2\<rparr>"

definition gpu_b :: Image where
  "gpu_b = \<lparr>allocateGPU = True, isAllocated = True, data_host = 3, data_device = 4,
            noDims = (2, 1), dataSize = 2\<rparr>"

definition mem_gpu :: memory where
  "mem_gpu = \<lparr>blocks = [1 \<mapsto> (Pinned, [1, 2]), 2 \<mapsto> (Device, [3, 4]),
                        3 \<mapsto> (Pinned, [5, 6]), 4 \<mapsto> (Device, [7, 8])],
              next_ptr = 5, garbage = (\<lambda>p i. 0xCD), host_avail = 100, device_avail = 100\<rparr>"

text \<open>The memory \<open>mem_gpu\<close> once the device block of \<open>gpu_a\<close> holds the bytes of its host block.\<close>

definition mem_gpu_synced :: memory where
  "mem_gpu_synced = mem_gpu\<lparr>blocks := (blocks mem_gpu)(2 \<mapsto> (Device, [1, 2]))\<rparr>"




section \<open>Properties\<close>

subsection \<open>Auxiliary facts\<close>

lemma isAllocated_True_same: "isAllocated this \<Longrightarrow> this\<lparr>isAllocated := True\<rparr> = this"
  by (cases this) simp

lemma isAllocated_False_same: "\<not> isAllocated this \<Longrightarrow> this\<lparr>isAllocated := False\<rparr> = this"
  by (cases this) simp

lemma has_blockD:
  "has_block m p sp n \<Longrightarrow> \<exists>bs. blocks m p = Some (sp, bs) \<and> length bs = n"
  by (auto simp: has_block_def split: option.splits)

lemma alloc_SomeD:
  assumes "alloc sp n m = Some (p, m')"
  shows "p = next_ptr m \<and> n \<le> avail sp m \<and>
         blocks m' = (blocks m)(p \<mapsto> (sp, map (garbage m p) [0..<n])) \<and>
         next_ptr m' = Suc p"
  using assms by (auto simp: alloc_def set_avail_def split: if_splits)

lemma fill_SomeD:
  assumes "fill ok p v n m = Some m'"
  shows "\<exists>sp bs. blocks m p = Some (sp, bs) \<and> ok sp \<and> n \<le> length bs \<and>
           m' = m\<lparr>blocks := (blocks m)(p \<mapsto> (sp, replicate n v @ drop n bs))\<rparr>"
  using assms by (auto simp: fill_def split: option.splits if_splits)

lemma copy_SomeD:
  assumes "copy dok dst sok src n m = Some m'"
  shows "\<exists>dsp dbs ssp sbs. blocks m dst = Some (dsp, dbs) \<and> blocks m src = Some (ssp, sbs) \<and>
           dok dsp \<and> sok ssp \<and> n \<le> length dbs \<and> n \<le> length sbs \<and>
           m' = m\<lparr>blocks := (blocks m)(dst \<mapsto> (dsp, take n sbs @ drop n dbs))\<rparr>"
  using assms by (auto simp: copy_def split: option.splits if_splits)

lemma memcpy_InrD:
  assumes "memcpy dst src c m = Inr m'"
  shows "\<exists>n. c = Some n \<and> copy on_host dst on_host src n m = Some m'"
  using assms by (cases c) (auto simp: memcpy_def split: option.splits)

lemma cudaMemcpy_InrD:
  assumes "ORcudaSafeCall (cudaMemcpy dst src c k m) = Inr m'"
  shows "\<exists>n. c = Some n \<and> copy (dst_domain k) dst (src_domain k) src n m = Some m'"
  using assms by (cases c) (auto simp: cudaMemcpy_def ORcudaSafeCall_def split: option.splits)

text \<open>What an allocated image owns, spelled out for the two kinds of image.\<close>

lemma allocated_gpuD:
  assumes "allocated cuda sz this m" "allocateGPU this"
  shows "\<exists>n hs ds. cuda \<and> isAllocated this \<and> byte_count sz (dataSize this) = Some n \<and>
           blocks m (data_host this) = Some (Pinned, hs) \<and> length hs = n \<and>
           blocks m (data_device this) = Some (Device, ds) \<and> length ds = n \<and>
           data_host this \<noteq> data_device this"
  using assms
  by (auto simp: allocated_def owns_storage_def split: option.splits dest!: has_blockD)

lemma allocated_cpuD:
  assumes "allocated cuda sz this m" "\<not> allocateGPU this"
  shows "\<exists>n hs. isAllocated this \<and> byte_count sz (dataSize this) = Some n \<and>
           blocks m (data_host this) = Some (Pageable, hs) \<and> length hs = n"
  using assms
  by (auto simp: allocated_def owns_storage_def split: option.splits dest!: has_blockD)

lemma allocatedD:
  assumes "allocated cuda sz this m"
  shows "\<exists>n sp hs. byte_count sz (dataSize this) = Some n \<and>
           blocks m (data_host this) = Some (sp, hs) \<and> on_host sp \<and> length hs = n \<and>
           (allocateGPU this \<longrightarrow> (\<exists>ds. blocks m (data_device this) = Some (Device, ds) \<and>
              data_device this \<noteq> data_host this))"
proof (cases "allocateGPU this")
  case True
  from allocated_gpuD [OF assms True] show ?thesis
    by (auto simp: on_host_def)
next
  case False
  from allocated_cpuD [OF assms False] show ?thesis
    using False by (auto simp: on_host_def)
qed



text \<open>The product of two non-negative \<open>int\<close> values that fits 31 bits does not wrap.\<close>

lemma sint_mult_no_overflow:
  fixes w h :: "32 word"
  assumes "0 \<le> sint w" "0 \<le> sint h" "sint w * sint h < 2 ^ 31"
  shows "sint (w * h) = sint w * sint h"
proof -
  have "0 \<le> sint w * sint h" using assms by simp
  then have "signed_take_bit 31 (sint w * sint h) = sint w * sint h"
    using assms(3) by (intro signed_take_bit_int_eq_self) auto
  then show ?thesis by (simp add: sint_word_ariths)
qed

lemma gpu_a_allocated: "allocated True 1 gpu_a mem_gpu"
  by (simp add: allocated_def owns_storage_def has_block_def byte_count_def gpu_a_def mem_gpu_def)

lemma gpu_b_allocated: "allocated True 1 gpu_b mem_gpu"
  by (simp add: allocated_def owns_storage_def has_block_def byte_count_def gpu_b_def mem_gpu_def)

subsection \<open>What a successful call leaves behind\<close>

lemma Allocate_InrD:
  assumes "Allocate cuda sz dims this m = Inr (this', m')"
  shows "isAllocated this' \<and> allocateGPU this' = allocateGPU this \<and>
         (isAllocated this \<longrightarrow> this' = this \<and> m' = m) \<and>
         (\<not> isAllocated this \<longrightarrow>
            noDims this' = dims \<and> dataSize this' = fst dims * snd dims \<and>
            ((allocateGPU this \<and> \<not> cuda) \<or> owns_storage cuda sz this' m'))"
proof (cases "isAllocated this")
  case True
  with assms show ?thesis
    by (auto simp: Allocate_def then_do_def isAllocated_True_same)
next
  case False
  show ?thesis
  proof (cases "allocateGPU this")
    case cpu: False
    with False assms show ?thesis
      by (auto simp: Allocate_def then_do_def new_array_def owns_storage_def has_block_def
          Let_def split: option.splits sum.splits bind_splits dest!: alloc_SomeD)
  next
    case gpu: True
    show ?thesis
    proof (cases cuda)
      case False
      with gpu \<open>\<not> isAllocated this\<close> assms show ?thesis
        by (auto simp: Allocate_def then_do_def Let_def)
    next
      case True
      with gpu \<open>\<not> isAllocated this\<close> assms show ?thesis
        by (auto simp: Allocate_def then_do_def ORcudaSafeCall_def cudaMallocHost_def cudaMalloc_def
            owns_storage_def has_block_def Let_def
            split: option.splits sum.splits bind_splits dest!: alloc_SomeD)
    qed
  qed
qed

lemma Free_InrD:
  assumes "Free cuda this m = Inr (this', m')"
  shows "this' = this\<lparr>isAllocated := False\<rparr>"
  using assms by (auto simp: Free_def then_do_def split: sum.splits)

lemma SetFrom_InrD:
  assumes "SetFrom cuda sz source copyHost copyDevice this m = Inr (this', m')"
  shows "this' = this \<and>
         (\<exists>m1. (if copyHost
                then memcpy (data_host this) (data_host source) (byte_count sz (dataSize source)) m
                else Inr m) = Inr m1 \<and>
               (if cuda \<and> copyDevice
                then ORcudaSafeCall (cudaMemcpy (data_device this) (data_device source)
                       (byte_count sz (dataSize source)) cudaMemcpyDeviceToDevice m1)
                else Inr m1) = Inr m')"
  using assms by (auto simp: SetFrom_def then_do_def split: sum.splits)

subsection \<open>The object invariant\<close>

text \<open>
  A constructed object satisfies \<open>image_inv\<close>, and every member function that returns
  keeps it; so the invariant holds in every reachable state.
\<close>

lemma Image_ctor_image_inv: "image_inv cuda sz (Image_ctor raw gpu) m"
  by (simp add: image_inv_def Image_ctor_def)

lemma Allocate_image_inv:
  assumes "Allocate cuda sz dims this m = Inr (this', m')" and "image_inv cuda sz this m"
  shows "image_inv cuda sz this' m'"
  using Allocate_InrD [OF assms(1)] assms(2)
  by (cases "isAllocated this") (auto simp: image_inv_def)

lemma Clear_image_inv:
  assumes "Clear cuda sz v this m = Inr (this', m')" and "image_inv cuda sz this m"
  shows "this' = this \<and> image_inv cuda sz this m'"
  using assms
  by (auto simp: Clear_def then_do_def memset_def cudaMemset_def ORcudaSafeCall_def
      image_inv_def owns_storage_def has_block_def
      split: sum.splits option.splits bind_splits if_splits dest!: fill_SomeD)

lemma Free_image_inv:
  assumes "Free cuda this m = Inr (this', m')"
  shows "image_inv cuda sz this' m'"
  using Free_InrD [OF assms] by (simp add: image_inv_def)

lemma ChangeDims_image_inv:
  assumes "ChangeDims cuda sz dims this m = Inr (this', m')" and "image_inv cuda sz this m"
  shows "image_inv cuda sz this' m'"
proof (cases "dims \<noteq> noDims this \<or> \<not> isAllocated this")
  case False
  with assms show ?thesis by (auto simp: ChangeDims_def)
next
  case True
  with assms(1) obtain this1 m1 where
    f: "Free cuda this m = Inr (this1, m1)" and a: "Allocate cuda sz dims this1 m1 = Inr (this', m')"
    by (auto simp: ChangeDims_def then_do_def split: sum.splits)
  from Allocate_image_inv [OF a Free_image_inv [OF f]] show ?thesis .
qed

lemma Update_image_inv:
  assumes "UpdateDeviceFromHost cuda sz this m = Inr (this', m') \<or>
           UpdateHostFromDevice cuda sz this m = Inr (this', m')"
    and "image_inv cuda sz this m"
  shows "this' = this \<and> image_inv cuda sz this m'"
  using assms
  by (auto simp: UpdateDeviceFromHost_def UpdateHostFromDevice_def then_do_def cudaMemcpy_def
      ORcudaSafeCall_def image_inv_def owns_storage_def has_block_def
      split: sum.splits option.splits bind_splits if_splits dest!: copy_SomeD)

lemma Image_ctor_dims_inv:
  assumes "Image_ctor_dims cuda sz raw dims gpu m = Inr (this, m')"
  shows "isAllocated this \<and> allocateGPU this = gpu \<and> noDims this = dims \<and>
         dims_consistent this \<and> image_inv cuda sz this m'"
proof -
  from assms obtain this1 m1 where
    a: "Allocate cuda sz dims (raw\<lparr>isAllocated := False, allocateGPU := gpu\<rparr>) m = Inr (this1, m1)"
    and c: "Clear cuda sz 0 this1 m1 = Inr (this, m')"
    by (auto simp: Image_ctor_dims_def then_do_def split: sum.splits)
  from Allocate_InrD [OF a] have
    i: "isAllocated this1" "allocateGPU this1 = gpu" "noDims this1 = dims"
       "dataSize this1 = fst dims * snd dims"
       "image_inv cuda sz this1 m1"
    by (auto simp: image_inv_def)
  from Clear_image_inv [OF c i(5)] i show ?thesis
    by (simp add: dims_consistent_def)
qed

lemma SetFrom_image_inv:
  assumes "SetFrom cuda sz source copyHost copyDevice this m = Inr (this', m')"
    and "image_inv cuda sz this m"
  shows "this' = this \<and> image_inv cuda sz this m'"
proof -
  from SetFrom_InrD [OF assms(1)] obtain m1 where
    same: "this' = this"
    and host: "(if copyHost
                then memcpy (data_host this) (data_host source) (byte_count sz (dataSize source)) m
                else Inr m) = Inr m1"
    and dev: "(if cuda \<and> copyDevice
               then ORcudaSafeCall (cudaMemcpy (data_device this) (data_device source)
                      (byte_count sz (dataSize source)) cudaMemcpyDeviceToDevice m1)
               else Inr m1) = Inr m'"
    by blast
  have 1: "image_inv cuda sz this m1"
    using host assms(2)
    by (cases copyHost)
      (auto simp: image_inv_def owns_storage_def has_block_def on_host_def
        split: option.splits if_splits dest!: memcpy_InrD copy_SomeD)
  have 2: "image_inv cuda sz this m'"
    using dev 1
    by (cases "cuda \<and> copyDevice")
      (auto simp: image_inv_def owns_storage_def has_block_def on_device_def
        split: option.splits if_splits dest!: cudaMemcpy_InrD copy_SomeD)
  with same show ?thesis by simp
qed

lemma reachable_image_inv:
  assumes "reachable cuda sz s"
  shows "image_inv cuda sz (fst s) (snd s)"
  using assms
proof (induction rule: reachable.induct)
  case (r_ctor raw gpu m)
  show ?case by (simp add: Image_ctor_image_inv)
next
  case (r_ctor_dims raw dims gpu m s)
  then show ?case using Image_ctor_dims_inv [of cuda sz raw dims gpu m "fst s" "snd s"] by simp
next
  case (r_Allocate this m dims s)
  then show ?case using Allocate_image_inv [of cuda sz dims this m "fst s" "snd s"] by simp
next
  case (r_Clear this m v s)
  then show ?case using Clear_image_inv [of cuda sz v this m "fst s" "snd s"] by simp
next
  case (r_ChangeDims this m dims s)
  then show ?case using ChangeDims_image_inv [of cuda sz dims this m "fst s" "snd s"] by simp
next
  case (r_UpdateDeviceFromHost this m s)
  then show ?case using Update_image_inv [of cuda sz this m "fst s" "snd s"] by simp
next
  case (r_UpdateHostFromDevice this m s)
  then show ?case using Update_image_inv [of cuda sz this m "fst s" "snd s"] by simp
next
  case (r_SetFrom this m source copyHost copyDevice s)
  then show ?case
    using SetFrom_image_inv [of cuda sz source copyHost copyDevice this m "fst s" "snd s"] by simp
next
  case (r_Free this m s)
  then show ?case using Free_image_inv [of cuda this m "fst s" "snd s" sz] by simp
qed

text \<open>
  \<open>Allocate\<close> and \<open>ChangeDims\<close> leave \<open>dataSize\<close> equal to the product of the dimensions
  whenever they set the dimensions.
\<close>

lemma Allocate_dims_consistent:
  assumes "Allocate cuda sz dims this m = Inr (this', m')"
    and "isAllocated this \<longrightarrow> dims_consistent this"
  shows "dims_consistent this'"
  using Allocate_InrD [OF assms(1)] assms(2)
  by (cases "isAllocated this") (auto simp: dims_consistent_def)

lemma ChangeDims_dims_consistent:
  assumes "ChangeDims cuda sz dims this m = Inr (this', m')"
    and "isAllocated this \<longrightarrow> dims_consistent this"
  shows "isAllocated this' \<and> noDims this' = dims \<and> dims_consistent this'"
proof (cases "dims \<noteq> noDims this \<or> \<not> isAllocated this")
  case False
  with assms show ?thesis by (auto simp: ChangeDims_def)
next
  case True
  with assms(1) obtain this1 m1 where
    f: "Free cuda this m = Inr (this1, m1)" and a: "Allocate cuda sz dims this1 m1 = Inr (this', m')"
    by (auto simp: ChangeDims_def then_do_def split: sum.splits)
  from Free_InrD [OF f] have "\<not> isAllocated this1" by simp
  with Allocate_InrD [OF a] show ?thesis
    by (simp add: dims_consistent_def)
qed

text \<open>
  Two calls of \<open>Allocate\<close> in a row: the second changes nothing, and an image that was
  not allocated before keeps the dimensions of the first call.
\<close>

lemma Allocate_twice:
  assumes "Allocate cuda sz d1 this m = Inr (this1, m1)"
  shows "Allocate cuda sz d2 this1 m1 = Inr (this1, m1) \<and>
         (\<not> isAllocated this \<longrightarrow> noDims this1 = d1)"
proof -
  from Allocate_InrD [OF assms] have a: "isAllocated this1"
    and d: "\<not> isAllocated this \<longrightarrow> noDims this1 = d1"
    by auto
  from a have "Allocate cuda sz d2 this1 m1 = Inr (this1, m1)"
    by (simp add: Allocate_def then_do_def isAllocated_True_same)
  with d show ?thesis by simp
qed

section \<open>The claims\<close>

subsection \<open>Allocation and resizing\<close>

text \<open>
  Claim C1. On an image that is already allocated, \<open>Allocate\<close> with any dimensions,
  equal to the current ones or not, returns without error and leaves the object (its
  dimensions, \<open>dataSize\<close> and both pointers) and the whole memory, so both storage
  blocks, exactly as they were: the call is neither an error nor a resize.
\<close>

theorem Allocate_allocated_noop:
  "isAllocated this \<Longrightarrow> Allocate cuda sz dims this m = Inr (this, m)"
  by (simp add: Allocate_def then_do_def isAllocated_True_same)

theorem Allocate_allocated_noop_witness:
  "isAllocated gpu_a \<and> noDims gpu_a \<noteq> (5, 6) \<and>
   Allocate True 1 (5, 6) gpu_a mem_gpu = Inr (gpu_a, mem_gpu)"
  using Allocate_allocated_noop [of gpu_a True 1 "(5, 6)" mem_gpu]
  by (simp add: gpu_a_def)

text \<open>
  Claim C2. On an allocated image, \<open>ChangeDims\<close> with the current dimensions returns
  without error and leaves the object and the whole memory unchanged: the image stays
  allocated with the same dimensions, and every byte of the host block, and of the
  device block if there is one, is preserved.
\<close>

theorem ChangeDims_same_noop:
  "isAllocated this \<Longrightarrow> ChangeDims cuda sz (noDims this) this m = Inr (this, m)"
  by (simp add: ChangeDims_def)

theorem ChangeDims_same_noop_witness:
  "isAllocated gpu_a \<and> ChangeDims True 1 (noDims gpu_a) gpu_a mem_gpu = Inr (gpu_a, mem_gpu)"
  using ChangeDims_same_noop [of gpu_a True 1 mem_gpu]
  by (simp add: gpu_a_def)

text \<open>
  Claim C4, as amended. For dimensions \<open>w, h \<ge> 0\<close> whose product fits the 32-bit
  \<open>int\<close> (\<open>w * h < 2^31\<close>), and with \<open>w * h * sizeof(T)\<close> bytes of host memory available,
  the constructor \<open>Image((w, h), false)\<close> returns an allocated image of these dimensions
  whose \<open>dataSize\<close> is \<open>w * h\<close> and whose host block consists of \<open>w * h * sizeof(T)\<close> zero
  bytes.
\<close>

theorem ctor_dims_cpu:
  assumes "0 \<le> sint w" "0 \<le> sint h" "sint w * sint h < 2 ^ 31"
    and "nat (sint w * sint h) * sz \<le> host_avail m"
  shows "\<exists>this m'. Image_ctor_dims cuda sz raw (w, h) False m = Inr (this, m') \<and>
           allocated cuda sz this m' \<and> noDims this = (w, h) \<and>
           sint (dataSize this) = sint w * sint h \<and>
           peek (GetData this False) m' = Some (replicate (nat (sint w * sint h) * sz) 0)"
proof -
  have s: "sint (w * h) = sint w * sint h"
    using assms(1-3) by (rule sint_mult_no_overflow)
  have b: "byte_count sz (w * h) = Some (nat (sint w * sint h) * sz)"
    using assms(1,2) by (simp add: byte_count_def s)
  show ?thesis
    using assms(4)
    by (simp add: Image_ctor_dims_def Allocate_def Clear_def then_do_def new_array_def alloc_def
        memset_def fill_def avail_def set_avail_def on_host_def b s allocated_def owns_storage_def
        has_block_def peek_def GetData_def)
qed

theorem ctor_dims_cpu_witness:
  "0 \<le> sint (3 :: 32 word) \<and> 0 \<le> sint (2 :: 32 word) \<and>
   sint (3 :: 32 word) * sint (2 :: 32 word) < 2 ^ 31 \<and>
   nat (sint (3 :: 32 word) * sint (2 :: 32 word)) * 4 \<le> host_avail mem0 \<and>
   (\<exists>this m'. Image_ctor_dims False 4 raw0 (3, 2) False mem0 = Inr (this, m') \<and>
      allocated False 4 this m' \<and> noDims this = (3, 2) \<and> sint (dataSize this) = 6 \<and>
      peek (GetData this False) m' = Some (replicate 24 0))"
proof -
  have h: "0 \<le> sint (3 :: 32 word)" "0 \<le> sint (2 :: 32 word)"
    "sint (3 :: 32 word) * sint (2 :: 32 word) < 2 ^ 31"
    "nat (sint (3 :: 32 word) * sint (2 :: 32 word)) * 4 \<le> host_avail mem0"
    by (simp_all add: mem0_def)
  from ctor_dims_cpu [OF h, of False raw0] h
  show ?thesis by simp
qed

text \<open>
  Claim C4 as it is written fails where the product of the dimensions leaves the range
  of \<open>int\<close>. For four-byte pixels and \<open>w = h = 46341\<close> the product \<open>2147488281\<close> wraps to
  a negative \<open>dataSize\<close>, and \<open>new T[dataSize]\<close> throws, although the memory has room for
  the \<open>8589953124\<close> bytes that 46341 x 46341 pixels take: no image is constructed.
\<close>

theorem ctor_dims_overflow:
  "0 \<le> sint (46341 :: 32 word) \<and> 46341 * 46341 * 4 \<le> host_avail mem0 \<and>
   Image_ctor_dims False 4 raw0 (46341, 46341) False mem0 = Inl BadAlloc"
  by (simp add: Image_ctor_dims_def Allocate_def then_do_def raw0_def mem0_def new_array_def
      byte_count_def)

lemma Image_ctor_reachable: "reachable cuda sz (Image_ctor raw gpu, m)"
  by (rule r_ctor)

text \<open>
  Claim C5 says that \<open>dataSize\<close> is the product of the dimensions in every state the
  public operations reach, the image \<open>Image(allocateGPU)\<close> included. That constructor
  sets the dimensions to (0, 0) and does not assign \<open>dataSize\<close>, which keeps whatever
  the object's storage held: on storage holding 7 the new image, a reachable state by
  \<open>Image_ctor_reachable\<close>, has dimensions (0, 0) and \<open>dataSize\<close> 7. (\<open>Allocate\<close>, and
  with it the other constructor and \<open>ChangeDims\<close>, assign both fields together: see
  \<open>Allocate_dims_consistent\<close>, \<open>Image_ctor_dims_inv\<close> and \<open>ChangeDims_dims_consistent\<close>.)
\<close>

theorem Image_ctor_dataSize_indeterminate:
  "noDims (Image_ctor raw0 False) = (0, 0) \<and> dataSize (Image_ctor raw0 False) = 7 \<and>
   \<not> dims_consistent (Image_ctor raw0 False)"
  by (simp add: Image_ctor_def raw0_def dims_consistent_def)



subsection \<open>Transfers, copies and clearing\<close>

text \<open>
  Claim C3. Take an allocated image on both CPU and GPU and host content \<open>P\<close> of the
  size of its blocks. Writing \<open>P\<close> to the host block, \<open>UpdateDeviceFromHost\<close>,
  overwriting the host block with any other content \<open>Q\<close>, and \<open>UpdateHostFromDevice\<close>
  all succeed, and the host block holds \<open>P\<close> again.
\<close>

theorem host_device_round_trip:
  assumes "allocateGPU this" and "allocated cuda sz this m"
    and "byte_count sz (dataSize this) = Some (length P)" and "length Q = length P"
  shows "\<exists>m1 m2 m3 m4.
           poke (GetData this False) P m = Some m1 \<and>
           UpdateDeviceFromHost cuda sz this m1 = Inr (this, m2) \<and>
           poke (GetData this False) Q m2 = Some m3 \<and>
           UpdateHostFromDevice cuda sz this m3 = Inr (this, m4) \<and>
           peek (GetData this False) m4 = Some P"
proof -
  from allocated_gpuD [OF assms(2,1)] assms(3) obtain hs ds where
    f: "cuda"
       "blocks m (data_host this) = Some (Pinned, hs)" "length hs = length P"
       "blocks m (data_device this) = Some (Device, ds)" "length ds = length P"
       "data_host this \<noteq> data_device this"
    by auto
  with assms show ?thesis
    by (simp add: poke_def UpdateDeviceFromHost_def UpdateHostFromDevice_def then_do_def
        cudaMemcpy_def ORcudaSafeCall_def copy_def on_host_def on_device_def peek_def GetData_def)
qed

theorem host_device_round_trip_witness:
  "allocateGPU gpu_a \<and> allocated True 1 gpu_a mem_gpu \<and>
   byte_count 1 (dataSize gpu_a) = Some (length [10, 20 :: byte]) \<and>
   (\<exists>m1 m2 m3 m4.
      poke (GetData gpu_a False) [10, 20] mem_gpu = Some m1 \<and>
      UpdateDeviceFromHost True 1 gpu_a m1 = Inr (gpu_a, m2) \<and>
      poke (GetData gpu_a False) [30, 40] m2 = Some m3 \<and>
      UpdateHostFromDevice True 1 gpu_a m3 = Inr (gpu_a, m4) \<and>
      peek (GetData gpu_a False) m4 = Some [10, 20])"
proof -
  have g: "allocateGPU gpu_a" by (simp add: gpu_a_def)
  have n: "byte_count 1 (dataSize gpu_a) = Some (length [10, 20 :: byte])"
    by (simp add: byte_count_def gpu_a_def)
  have q: "length [30, 40 :: byte] = length [10, 20 :: byte]" by simp
  from host_device_round_trip [OF g gpu_a_allocated n q] g gpu_a_allocated n
  show ?thesis by blast
qed

text \<open>
  Claim C6. Take two allocated images with equal \<open>dataSize\<close> and separate host blocks.
  \<open>SetFrom(source, true, false)\<close> succeeds and leaves the object unchanged (dimensions,
  \<open>dataSize\<close>, allocation flag); afterwards the host block of this image holds exactly
  the bytes of the host block of \<open>source\<close>, the device block of this image, if it has
  one, holds what it held before, and the image still owns its storage.
\<close>

theorem SetFrom_host_only:
  assumes "allocated cuda sz this m" and "allocated cuda sz source m"
    and "dataSize source = dataSize this" and "data_host this \<noteq> data_host source"
  shows "\<exists>m' bs. SetFrom cuda sz source True False this m = Inr (this, m') \<and>
           peek (GetData source False) m = Some bs \<and>
           peek (GetData source False) m' = Some bs \<and>
           peek (GetData this False) m' = Some bs \<and>
           (allocateGPU this \<longrightarrow> peek (GetData this True) m' = peek (GetData this True) m) \<and>
           allocated cuda sz this m'"
proof -
  from allocatedD [OF assms(1)] obtain n sp hs where
    t: "byte_count sz (dataSize this) = Some n" "blocks m (data_host this) = Some (sp, hs)"
       "on_host sp" "length hs = n"
       "allocateGPU this \<longrightarrow> (\<exists>ds. blocks m (data_device this) = Some (Device, ds) \<and>
              data_device this \<noteq> data_host this)"
    by blast
  from allocatedD [OF assms(2)] assms(3) t(1) obtain sp' hs' where
    s: "blocks m (data_host source) = Some (sp', hs')" "on_host sp'" "length hs' = n"
    by auto
  have a: "allocated cuda sz this
             (m\<lparr>blocks := (blocks m)(data_host this \<mapsto> (sp, hs'))\<rparr>)"
    using assms(1) t s
    by (auto simp: allocated_def owns_storage_def has_block_def on_host_def)
  show ?thesis
    using t s assms(3,4) a
    by (auto simp: SetFrom_def then_do_def memcpy_def copy_def peek_def GetData_def)
qed

theorem SetFrom_host_only_witness:
  "allocated True 1 gpu_a mem_gpu \<and> allocated True 1 gpu_b mem_gpu \<and>
   dataSize gpu_b = dataSize gpu_a \<and> data_host gpu_a \<noteq> data_host gpu_b \<and> allocateGPU gpu_a \<and>
   (\<exists>m'. SetFrom True 1 gpu_b True False gpu_a mem_gpu = Inr (gpu_a, m') \<and>
      peek (GetData gpu_b False) mem_gpu = Some [5, 6] \<and>
      peek (GetData gpu_a False) m' = Some [5, 6] \<and>
      peek (GetData gpu_a True) m' = Some [3, 4] \<and>
      allocated True 1 gpu_a m')"
proof -
  have h: "dataSize gpu_b = dataSize gpu_a" "data_host gpu_a \<noteq> data_host gpu_b" "allocateGPU gpu_a"
    by (simp_all add: gpu_a_def gpu_b_def)
  have p: "peek (GetData gpu_b False) mem_gpu = Some [5, 6]"
    "peek (GetData gpu_a True) mem_gpu = Some [3, 4]"
    by (simp_all add: peek_def GetData_def gpu_a_def gpu_b_def mem_gpu_def)
  from SetFrom_host_only [OF gpu_a_allocated gpu_b_allocated h(1,2)] h p gpu_a_allocated gpu_b_allocated
  show ?thesis by auto
qed




text \<open>
  The host copy returns whenever \<open>source\<close> is allocated and the host block of this
  image, a different block, is at least as long as the byte count of \<open>source\<close>.
\<close>

lemma SetFrom_host_succeeds:
  assumes "allocated cuda sz source m" and "byte_count sz (dataSize source) = Some n"
    and "blocks m (data_host this) = Some (sp, dbs)" and "on_host sp" and "n \<le> length dbs"
    and "data_host this \<noteq> data_host source"
  shows "\<exists>m'. SetFrom cuda sz source True False this m = Inr (this, m')"
proof -
  from allocatedD [OF assms(1)] assms(2) obtain sp' hs' where
    "blocks m (data_host source) = Some (sp', hs')" "on_host sp'" "length hs' = n"
    by auto
  with assms show ?thesis
    by (simp add: SetFrom_def then_do_def memcpy_def copy_def)
qed

text \<open>
  A transfer leaves the two blocks of an allocated image on both CPU and GPU equal, by
  copying one over the other; here from the host to the device.
\<close>

lemma UpdateDeviceFromHost_coherent:
  assumes "allocateGPU this" and "allocated cuda sz this m"
  shows "\<exists>bs m'. UpdateDeviceFromHost cuda sz this m = Inr (this, m') \<and>
           peek (GetData this False) m = Some bs \<and>
           peek (GetData this False) m' = Some bs \<and>
           peek (GetData this True) m' = Some bs"
proof -
  from allocated_gpuD [OF assms(2,1)] obtain n hs ds where
    f: "cuda" "byte_count sz (dataSize this) = Some n"
       "blocks m (data_host this) = Some (Pinned, hs)" "length hs = n"
       "blocks m (data_device this) = Some (Device, ds)" "length ds = n"
       "data_host this \<noteq> data_device this"
    by blast
  with assms(1) show ?thesis
    by (simp add: UpdateDeviceFromHost_def then_do_def cudaMemcpy_def ORcudaSafeCall_def copy_def
        on_host_def on_device_def peek_def GetData_def)
qed

text \<open>
  Claim C10, as amended. On an allocated image on both CPU and GPU, \<open>Clear(v)\<close>
  succeeds for every byte \<open>v\<close>, whatever the two blocks held before, and afterwards the
  host block and the device block are equal byte for byte: both consist of
  \<open>dataSize * sizeof(T)\<close> copies of \<open>v\<close>. So \<open>Clear\<close> establishes the equality of the
  two blocks as a postcondition.
\<close>

theorem Clear_coherent:
  assumes "allocateGPU this" and "allocated cuda sz this m"
  shows "\<exists>n m'. byte_count sz (dataSize this) = Some n \<and>
           Clear cuda sz v this m = Inr (this, m') \<and>
           peek (GetData this False) m' = Some (replicate n v) \<and>
           peek (GetData this True) m' = Some (replicate n v)"
proof -
  from allocated_gpuD [OF assms(2,1)] obtain n hs ds where
    f: "cuda" "byte_count sz (dataSize this) = Some n"
       "blocks m (data_host this) = Some (Pinned, hs)" "length hs = n"
       "blocks m (data_device this) = Some (Device, ds)" "length ds = n"
       "data_host this \<noteq> data_device this"
    by blast
  with assms(1) show ?thesis
    by (simp add: Clear_def then_do_def memset_def cudaMemset_def ORcudaSafeCall_def fill_def
        on_host_def on_device_def peek_def GetData_def)
qed

theorem Clear_coherent_witness:
  "allocateGPU gpu_a \<and> allocated True 1 gpu_a mem_gpu \<and>
   peek (GetData gpu_a False) mem_gpu \<noteq> peek (GetData gpu_a True) mem_gpu \<and>
   (\<exists>n m'. byte_count 1 (dataSize gpu_a) = Some n \<and>
      Clear True 1 0xAB gpu_a mem_gpu = Inr (gpu_a, m') \<and>
      peek (GetData gpu_a False) m' = Some (replicate n 0xAB) \<and>
      peek (GetData gpu_a True) m' = Some (replicate n 0xAB))"
proof -
  have g: "allocateGPU gpu_a" by (simp add: gpu_a_def)
  have d: "peek (GetData gpu_a False) mem_gpu \<noteq> peek (GetData gpu_a True) mem_gpu"
    by (simp add: peek_def GetData_def gpu_a_def mem_gpu_def)
  from Clear_coherent [OF g gpu_a_allocated, of "0xAB"] g d gpu_a_allocated
  show ?thesis by blast
qed

text \<open>
  Claim C10 as it is written also says that \<open>Clear\<close> is the one mutating operation
  with that postcondition. It is not: \<open>UpdateDeviceFromHost\<close> changes the memory and
  leaves the two blocks equal as well. On \<open>gpu_a\<close>, whose host block holds 1, 2 and
  whose device block holds 3, 4, the call returns the memory in which both blocks hold
  1, 2.
\<close>

theorem UpdateDeviceFromHost_establishes_coherence:
  "allocateGPU gpu_a \<and> allocated True 1 gpu_a mem_gpu \<and>
   peek (GetData gpu_a False) mem_gpu = Some [1, 2] \<and>
   peek (GetData gpu_a True) mem_gpu = Some [3, 4] \<and>
   UpdateDeviceFromHost True 1 gpu_a mem_gpu = Inr (gpu_a, mem_gpu_synced) \<and>
   mem_gpu_synced \<noteq> mem_gpu \<and>
   peek (GetData gpu_a False) mem_gpu_synced = Some [1, 2] \<and>
   peek (GetData gpu_a True) mem_gpu_synced = Some [1, 2]"
proof -
  have g: "allocateGPU gpu_a" by (simp add: gpu_a_def)
  have b: "peek (GetData gpu_a False) mem_gpu = Some [1, 2]"
    "peek (GetData gpu_a True) mem_gpu = Some [3, 4]"
    "peek (GetData gpu_a False) mem_gpu_synced = Some [1, 2]"
    "peek (GetData gpu_a True) mem_gpu_synced = Some [1, 2]"
    by (simp_all add: peek_def GetData_def gpu_a_def mem_gpu_def mem_gpu_synced_def)
  have u: "UpdateDeviceFromHost True 1 gpu_a mem_gpu = Inr (gpu_a, mem_gpu_synced)"
    by (simp add: UpdateDeviceFromHost_def then_do_def cudaMemcpy_def ORcudaSafeCall_def copy_def
        byte_count_def on_host_def on_device_def gpu_a_def mem_gpu_def mem_gpu_synced_def)
  have n: "mem_gpu_synced \<noteq> mem_gpu"
    using b(2,4) by auto
  from g gpu_a_allocated b u n show ?thesis by simp
qed

subsection \<open>Release\<close>

text \<open>
  Claim C7. On every image that satisfies the object invariant, as every reachable
  state does (\<open>reachable_image_inv\<close>), \<open>Free\<close> succeeds and
  leaves the image unallocated; if the image owned storage, its host block and, for an
  image on both CPU and GPU, its device block are gone from the memory. A second
  \<open>Free\<close> right after succeeds too and changes neither the object nor the memory, so
  it frees nothing (in this memory, freeing a block that is not live is a failure).
  On an image that is not allocated the first \<open>Free\<close> already changes nothing.
\<close>

theorem Free_twice:
  assumes "image_inv cuda sz this m"
  shows "\<exists>this1 m1. Free cuda this m = Inr (this1, m1) \<and> \<not> isAllocated this1 \<and>
           (allocated cuda sz this m \<longrightarrow>
              blocks m1 (data_host this) = None \<and>
              (allocateGPU this \<longrightarrow> blocks m1 (data_device this) = None)) \<and>
           (\<not> isAllocated this \<longrightarrow> this1 = this \<and> m1 = m) \<and>
           Free cuda this1 m1 = Inr (this1, m1)"
proof (cases "isAllocated this")
  case False
  then show ?thesis
    by (simp add: Free_def then_do_def isAllocated_False_same allocated_def)
next
  case True
  note alloc = this
  show ?thesis
  proof (cases "allocateGPU this")
    case gpu: True
    show ?thesis
    proof (cases cuda)
      case True
      with assms alloc gpu have "allocated cuda sz this m"
        by (simp add: image_inv_def allocated_def)
      from allocated_gpuD [OF this gpu] obtain hs ds where
        "blocks m (data_host this) = Some (Pinned, hs)"
        "blocks m (data_device this) = Some (Device, ds)"
        "data_host this \<noteq> data_device this"
        by blast
      with True alloc gpu show ?thesis
        by (simp add: Free_def then_do_def ORcudaSafeCall_def cudaFree_def cudaFreeHost_def
            release_def set_avail_def avail_def)
    next
      case False
      with alloc gpu show ?thesis
        by (simp add: Free_def then_do_def allocated_def owns_storage_def split: option.splits)
    qed
  next
    case cpu: False
    with assms alloc have "allocated cuda sz this m"
      by (simp add: image_inv_def allocated_def)
    from allocated_cpuD [OF this cpu] obtain hs where
      "blocks m (data_host this) = Some (Pageable, hs)"
      by blast
    with alloc cpu show ?thesis
      by (simp add: Free_def then_do_def delete_array_def release_def set_avail_def avail_def)
  qed
qed

theorem Free_twice_witness:
  "image_inv True 1 gpu_a mem_gpu \<and> allocated True 1 gpu_a mem_gpu \<and> allocateGPU gpu_a \<and>
   (\<exists>this1 m1. Free True gpu_a mem_gpu = Inr (this1, m1) \<and> \<not> isAllocated this1 \<and>
      blocks m1 (data_host gpu_a) = None \<and> blocks m1 (data_device gpu_a) = None \<and>
      Free True this1 m1 = Inr (this1, m1)) \<and>
   image_inv True 1 (Image_ctor raw0 True) mem0 \<and> \<not> isAllocated (Image_ctor raw0 True) \<and>
   Free True (Image_ctor raw0 True) mem0 = Inr (Image_ctor raw0 True, mem0)"
proof -
  have g: "allocateGPU gpu_a" by (simp add: gpu_a_def)
  have i: "image_inv True 1 gpu_a mem_gpu"
    using gpu_a_allocated by (simp add: image_inv_def allocated_def)
  have u: "\<not> isAllocated (Image_ctor raw0 True)" by (simp add: Image_ctor_def)
  from Free_twice [OF i] Free_twice [OF Image_ctor_image_inv [of True 1 raw0 True mem0]]
    g gpu_a_allocated i u Image_ctor_image_inv [of True 1 raw0 True mem0]
  show ?thesis by auto
qed

end
